theory Spec2Isabelle
  imports Main
begin

section \<open>Data model (src/types.ts)\<close>

text \<open>
  Instants are epoch milliseconds: an ISO string produced by \<^verbatim>\<open>toISOString()\<close> is
  modelled by the instant it denotes. An optional field (\<^verbatim>\<open>phone?: string\<close>) is an
  \<open>option\<close>, with \<open>None\<close> for \<^verbatim>\<open>undefined\<close>. Field names carry the record's initial,
  since several interfaces of the source share \<^verbatim>\<open>id\<close>, \<^verbatim>\<open>subjectId\<close> and \<^verbatim>\<open>notes\<close>.
\<close>

record subject =
  s_id :: string
  s_name :: string
  s_email :: "string option"
  s_phone :: "string option"
  s_altPhone :: "string option"
  s_insertionDate :: "int option"
  s_notes :: "string option"

datatype appointmentStatus = SCHEDULED | COMPLETED | MISSED | CANCELLED

record appointment =
  a_id :: string
  a_subjectId :: string
  a_date :: int
  a_status :: appointmentStatus
  a_followUpReason :: "string option"
  a_notes :: "string option"

datatype changeType = CREATE | UPDATE | DELETE

record changeLogEntry =
  l_id :: string
  l_timestamp :: int
  l_subjectId :: string
  l_subjectName :: string
  l_changeType :: changeType
  l_details :: string
  l_comment :: string

text \<open>The three collections the \<^verbatim>\<open>App\<close> component holds with \<^verbatim>\<open>useState\<close>.\<close>

record app =
  subjects :: "subject list"
  appointments :: "appointment list"
  changeLogs :: "changeLogEntry list"

text \<open>
  What a handler reads from outside the program: the clock (\<^verbatim>\<open>new Date()\<close>, one
  instant per handler run), the offset of local time from UTC in milliseconds, the
  values \<^verbatim>\<open>crypto.randomUUID()\<close> returns (the k-th call of a handler run gets
  \<open>uuid k\<close>), and the locale's \<^verbatim>\<open>toLocaleDateString\<close>. The offset is one constant
  for every instant: a daylight-saving change between two instants is not modelled, so
  across one the time of day a handler re-reads is an hour off the code's.
\<close>

record env =
  now :: int
  tz :: int
  uuid :: "nat \<Rightarrow> string"
  toLocaleDateString :: "int \<Rightarrow> string"

text \<open>
  The messages the handlers raise with \<^verbatim>\<open>alert\<close>, named after the spec's taxonomy;
  \<open>RangeError\<close> is the exception \<^verbatim>\<open>toISOString()\<close> throws on an invalid date,
  \<open>ConstraintViolation\<close> the browser refusing to submit a form whose inputs violate
  their \<^verbatim>\<open>required\<close>, \<^verbatim>\<open>min\<close> or \<^verbatim>\<open>max\<close> attribute, and \<open>NoValidRows\<close> the error
  status of the bulk-entry tab.
\<close>

datatype alert =
    FutureMissedNotAllowed
  | CorrectionWindowExceeded
  | MissingFollowUpChoice
  | MissingNextDate
  | MissingReasonText
  | PastRescheduleDate
  | DuplicateSubjectId
  | MissingRequiredComment
  | NoValidRows
  | ConstraintViolation
  | RangeError

section \<open>JavaScript and date-fns primitives\<close>

text \<open>\<^verbatim>\<open>x || ''\<close> on an optional string.\<close>

definition orEmpty :: "string option \<Rightarrow> string" where
  "orEmpty x = (case x of None \<Rightarrow> [] | Some v \<Rightarrow> v)"

text \<open>\<^verbatim>\<open>x || y\<close> with \<open>x\<close> a string and \<open>y\<close> optional: the empty string is falsy.\<close>

definition strOr :: "string \<Rightarrow> string option \<Rightarrow> string option" where
  "strOr x y = (if x = [] then y else Some x)"

text \<open>\<^verbatim>\<open>x || y\<close> with both optional.\<close>

definition optOr :: "string option \<Rightarrow> string option \<Rightarrow> string option" where
  "optOr x y = (case x of None \<Rightarrow> y | Some v \<Rightarrow> strOr v y)"

text \<open>
  \<^verbatim>\<open>String.prototype.trim\<close>. A \<open>char\<close> is a code unit from U+0000 to U+00FF; of
  these, \<^verbatim>\<open>trim\<close> strips the white space and line terminators: the tab, the line
  feed, the vertical tab, the form feed, the carriage return, the space and the no-break
  space U+00A0. The white space beyond U+00FF (U+1680, U+2000 to U+200A, U+2028, U+2029,
  U+202F, U+205F, U+3000 and U+FEFF) has no \<open>char\<close>.
\<close>

definition isSpace :: "char \<Rightarrow> bool" where
  "isSpace c =
     (c \<in> set [CHR '' '', CHR 0x09, CHR 0x0A, CHR 0x0B, CHR 0x0C, CHR 0x0D, CHR 0xA0])"

definition trim :: "string \<Rightarrow> string" where
  "trim s = rev (dropWhile isSpace (rev (dropWhile isSpace s)))"

text \<open>A number in a template literal.\<close>

fun natStr :: "nat \<Rightarrow> string" where
  "natStr n =
     (if n < 10 then [''0123456789'' ! n]
      else natStr (n div 10) @ [''0123456789'' ! (n mod 10)])"

declare natStr.simps [simp del]

text \<open>The enum's string values, as a template literal prints them.\<close>

fun statusStr :: "appointmentStatus \<Rightarrow> string" where
  "statusStr SCHEDULED = ''Scheduled''"
| "statusStr COMPLETED = ''Completed''"
| "statusStr MISSED = ''Missed''"
| "statusStr CANCELLED = ''Cancelled''"

definition DAY :: int where
  "DAY = 86400000"

text \<open>
  The local calendar day of an instant, counted from 1970-01-01 (what
  \<^verbatim>\<open>format(t, 'yyyy-MM-dd')\<close> names), for a constant offset of local time.
\<close>

definition localDay :: "env \<Rightarrow> int \<Rightarrow> int" where
  "localDay e t = (t + tz e) div DAY"

definition startOfDay :: "env \<Rightarrow> int \<Rightarrow> int" where
  "startOfDay e t = localDay e t * DAY - tz e"

definition subDays :: "int \<Rightarrow> int \<Rightarrow> int" where
  "subDays t n = t - n * DAY"

definition isBefore :: "int \<Rightarrow> int \<Rightarrow> bool" where
  "isBefore a b = (a < b)"

definition isAfter :: "int \<Rightarrow> int \<Rightarrow> bool" where
  "isAfter a b = (a > b)"

text \<open>
  The value of an \<^verbatim>\<open><input type="date">\<close> is the empty string (\<open>None\<close>) or the
  text \<^verbatim>\<open>yyyy-MM-dd\<close> of a calendar day (\<open>Some d\<close>, the day counted from 1970-01-01);
  the value of an \<^verbatim>\<open><input type="time">\<close> is the empty string or \<^verbatim>\<open>HH:mm\<close>, in
  minutes since midnight. \<open>parseISO\<close> of a date text is that day's local midnight.
\<close>

type_synonym dateInput = "int option"
type_synonym timeInput = "nat option"

definition parseISO :: "env \<Rightarrow> int \<Rightarrow> int" where
  "parseISO e d = d * DAY - tz e"

text \<open>\<^verbatim>\<open>format(t, 'HH:mm')\<close>: the minute of the local day.\<close>

definition formatHHmm :: "env \<Rightarrow> int \<Rightarrow> nat" where
  "formatHHmm e t = nat (((t + tz e) mod DAY) div 60000)"

text \<open>
  \<^verbatim>\<open>new Date(`${date}T${time}`)\<close>: a local date and time, \<open>None\<close> (Invalid Date)
  when either text is empty.
\<close>

definition newDateT :: "env \<Rightarrow> dateInput \<Rightarrow> timeInput \<Rightarrow> int option" where
  "newDateT e d t =
     (case d of None \<Rightarrow> None
      | Some dd \<Rightarrow> (case t of None \<Rightarrow> None
          | Some m \<Rightarrow> Some (dd * DAY + int m * 60000 - tz e)))"

text \<open>The text of a calendar day, \<^verbatim>\<open>yyyy-MM-dd\<close> (proleptic Gregorian calendar).\<close>

definition pad2 :: "nat \<Rightarrow> string" where
  "pad2 n = (if n < 10 then ''0'' @ natStr n else natStr n)"

definition pad4 :: "nat \<Rightarrow> string" where
  "pad4 n = (if n < 10 then ''000'' @ natStr n else if n < 100 then ''00'' @ natStr n
             else if n < 1000 then ''0'' @ natStr n else natStr n)"

definition ymd :: "int \<Rightarrow> string" where
  "ymd z =
     (let z1 = z + 719468;
          era = z1 div 146097;
          doe = z1 - era * 146097;
          yoe = (doe - doe div 1460 + doe div 36524 - doe div 146096) div 365;
          doy = doe - (365 * yoe + yoe div 4 - yoe div 100);
          mp = (5 * doy + 2) div 153;
          d = doy - (153 * mp + 2) div 5 + 1;
          m = (if mp < 10 then mp + 3 else mp - 9);
          y = yoe + era * 400 + (if m \<le> 2 then 1 else 0)
      in pad4 (nat y) @ ''-'' @ pad2 (nat m) @ ''-'' @ pad2 (nat d))"

definition dateText :: "dateInput \<Rightarrow> string" where
  "dateText d = (case d of None \<Rightarrow> [] | Some dd \<Rightarrow> ymd dd)"

section \<open>App: change log and subject directory (App component)\<close>

text \<open>\<open>addChangeLog\<close>; \<open>k\<close> counts the calls of \<^verbatim>\<open>randomUUID\<close> made before it.\<close>

definition addChangeLog ::
  "env \<Rightarrow> nat \<Rightarrow> changeType \<Rightarrow> subject \<Rightarrow> string \<Rightarrow> string \<Rightarrow> app \<Rightarrow> app" where
  "addChangeLog e k ty sub details comment st =
     st\<lparr>changeLogs := changeLogs st @
       [\<lparr>l_id = uuid e k, l_timestamp = now e, l_subjectId = s_id sub,
         l_subjectName = s_name sub, l_changeType = ty, l_details = details,
         l_comment = comment\<rparr>]\<rparr>"

definition handleSubjectChange ::
  "env \<Rightarrow> changeType \<Rightarrow> subject \<Rightarrow> string \<Rightarrow> app \<Rightarrow> alert option \<times> app" where
  "handleSubjectChange e ty subjectData comment st =
     (case ty of
        CREATE \<Rightarrow>
          (case find (\<lambda>s. s_id s = s_id subjectData) (subjects st) of
             Some _ \<Rightarrow> (Some DuplicateSubjectId, st)
           | None \<Rightarrow>
               (None, addChangeLog e 0 CREATE subjectData ''Created new subject entry'' comment
                  (st\<lparr>subjects := subjects st @ [subjectData]\<rparr>)))
      | UPDATE \<Rightarrow>
          (case find (\<lambda>s. s_id s = s_id subjectData) (subjects st) of
             None \<Rightarrow> (None, st)
           | Some _ \<Rightarrow>
               (None, addChangeLog e 0 UPDATE subjectData ''Updated subject details'' comment
                  (st\<lparr>subjects :=
                     map (\<lambda>s. if s_id s = s_id subjectData then subjectData else s)
                       (subjects st)\<rparr>)))
      | DELETE \<Rightarrow>
          (None, addChangeLog e 0 DELETE subjectData ''Exited Subject from study'' comment
             (st\<lparr>subjects := filter (\<lambda>s. s_id s \<noteq> s_id subjectData) (subjects st)\<rparr>)))"

section \<open>App: appointment store\<close>

text \<open>The auto-miss pass of the bootstrap effect, over the appointments loaded.\<close>

definition updatedApps :: "env \<Rightarrow> appointment list \<Rightarrow> appointment list" where
  "updatedApps e loadedApps =
     map (\<lambda>app.
       if a_date app < now e \<and> a_status app = SCHEDULED
       then app\<lparr>a_status := MISSED,
                a_followUpReason := Some ''Auto-detected: Past date'',
                a_notes := Some (orEmpty (a_notes app) @ '' [System: Marked as Missed]'')\<rparr>
       else app) loadedApps"

definition updateStatus ::
  "env \<Rightarrow> string \<Rightarrow> appointmentStatus \<Rightarrow> string option \<Rightarrow> app \<Rightarrow> app" where
  "updateStatus e i status reason st =
     (let oldApp = find (\<lambda>a. a_id a = i) (appointments st);
          st1 = st\<lparr>appointments :=
                  map (\<lambda>a. if a_id a = i
                            then a\<lparr>a_status := status,
                                   a_followUpReason := optOr reason (a_followUpReason a)\<rparr>
                            else a) (appointments st)\<rparr>
      in case oldApp of
           None \<Rightarrow> st1
         | Some old \<Rightarrow>
             if a_status old \<noteq> status
             then (case find (\<lambda>s. s_id s = a_subjectId old) (subjects st) of
                     None \<Rightarrow> st1
                   | Some sub \<Rightarrow>
                       addChangeLog e 0 UPDATE sub
                         (''Status: '' @ statusStr (a_status old) @ '' -> '' @ statusStr status)
                         (''Manual change. '' @ orEmpty reason) st1)
             else st1)"

definition updateAppointment :: "appointment \<Rightarrow> app \<Rightarrow> app" where
  "updateAppointment updated st =
     st\<lparr>appointments := map (\<lambda>a. if a_id a = a_id updated then updated else a) (appointments st)\<rparr>"

definition addAppointment :: "appointment \<Rightarrow> app \<Rightarrow> app" where
  "addAppointment appt st = st\<lparr>appointments := appointments st @ [appt]\<rparr>"



section \<open>Exit notes (SubjectManager and AppointmentCalendar)\<close>

datatype exitReasonT = EXIT_REMOVAL | EXIT_EXPULSION | EXIT_COMPLETED | EXIT_OTHER

text \<open>The select's values, as the template literal prints them.\<close>

fun exitReasonStr :: "exitReasonT \<Rightarrow> string" where
  "exitReasonStr EXIT_REMOVAL = ''REMOVAL''"
| "exitReasonStr EXIT_EXPULSION = ''EXPULSION''"
| "exitReasonStr EXIT_COMPLETED = ''COMPLETED''"
| "exitReasonStr EXIT_OTHER = ''OTHER''"

definition finalReason :: "exitReasonT \<Rightarrow> string \<Rightarrow> string" where
  "finalReason r other = (if r = EXIT_OTHER then ''OTHER: '' @ other else exitReasonStr r)"

text \<open>
  \<^verbatim>\<open>`Exit Study: ${finalReason} on ${exitDate}${approx ? ' (approx)' : ''}`\<close>, the
  template both components build.
\<close>

definition exitNote :: "exitReasonT \<Rightarrow> string \<Rightarrow> dateInput \<Rightarrow> bool \<Rightarrow> string" where
  "exitNote r other d approx =
     ''Exit Study: '' @ finalReason r other @ '' on '' @ dateText d @
     (if approx then '' (approx)'' else [])"

section \<open>AppointmentCalendar component\<close>

datatype postVisit = NEXT_APPT | EXIT

text \<open>The component's state that its handlers read or write.\<close>

record calendar =
  editingId :: "string option"
  reasonBuffer :: string
  rescheduleApp :: "appointment option"
  rescheduleDate :: dateInput
  rescheduleTime :: timeInput
  completionApp :: "appointment option"
  completionDate :: dateInput
  isApproximate :: bool
  postVisitAction :: "postVisit option"
  nextApptDate :: dateInput
  nextApptTime :: timeInput
  nextApptNotes :: string
  exitReason :: exitReasonT
  exitOtherReason :: string
  exitDate :: dateInput

definition getSubject :: "app \<Rightarrow> string \<Rightarrow> subject option" where
  "getSubject st i = find (\<lambda>s. s_id s = i) (subjects st)"

definition initCompletionFlow :: "env \<Rightarrow> calendar \<Rightarrow> appointment \<Rightarrow> calendar" where
  "initCompletionFlow e c app =
     c\<lparr>completionApp := Some app,
       completionDate := Some (localDay e (now e)),
       postVisitAction := None,
       isApproximate := False,
       nextApptDate := None,
       exitReason := EXIT_COMPLETED,
       exitOtherReason := [],
       exitDate := Some (localDay e (now e))\<rparr>"

definition handleStatusUpdate ::
  "env \<Rightarrow> string \<Rightarrow> appointmentStatus \<Rightarrow> calendar \<Rightarrow> app \<Rightarrow> alert option \<times> calendar \<times> app" where
  "handleStatusUpdate e i newStatus c st =
     (case find (\<lambda>a. a_id a = i) (appointments st) of
        None \<Rightarrow> (None, c, st)
      | Some app \<Rightarrow>
          if newStatus = MISSED then
            (if isAfter (a_date app) (now e) then (Some FutureMissedNotAllowed, c, st)
             else (None, c\<lparr>editingId := Some i,
                            reasonBuffer := orEmpty (a_followUpReason app)\<rparr>, st))
          else if newStatus = COMPLETED then (None, initCompletionFlow e c app, st)
          else (None, c, updateStatus e i newStatus None st))"

definition saveReason :: "env \<Rightarrow> string \<Rightarrow> calendar \<Rightarrow> app \<Rightarrow> alert option \<times> calendar \<times> app" where
  "saveReason e i c st =
     (None, c\<lparr>editingId := None\<rparr>, updateStatus e i MISSED (Some (reasonBuffer c)) st)"

text \<open>
  \<open>handleCompletionSubmit\<close>. The statements run in the source's order: the appointment
  is replaced by \<open>onUpdateAppointment\<close> before the follow-up branch checks its own
  fields, so a branch that alerts and returns does so on the updated store.
\<close>

definition handleCompletionSubmit ::
  "env \<Rightarrow> calendar \<Rightarrow> app \<Rightarrow> alert option \<times> calendar \<times> app" where
  "handleCompletionSubmit e c st =
     (case completionApp c of
        None \<Rightarrow> (None, c, st)
      | Some capp \<Rightarrow>
          if a_status capp = MISSED \<and>
             (case completionDate c of
                None \<Rightarrow> False
              | Some d \<Rightarrow> isBefore (parseISO e d) (startOfDay e (subDays (now e) 5)))
          then (Some CorrectionWindowExceeded, c, st)
          else
            (case postVisitAction c of
               None \<Rightarrow> (Some MissingFollowUpChoice, c, st)
             | Some act \<Rightarrow>
                 (case newDateT e (completionDate c) (Some (formatHHmm e (a_date capp))) of
                    None \<Rightarrow> (Some RangeError, c, st)
                  | Some attended \<Rightarrow>
                      (let st1 = updateAppointment
                             (capp\<lparr>a_status := COMPLETED,
                                   a_date := attended,
                                   a_followUpReason := None,
                                   a_notes := Some (orEmpty (a_notes capp) @ '' [Attended on '' @
                                     dateText (completionDate c) @
                                     (if isApproximate c then '' (approx)'' else []) @ '']'')\<rparr>) st
                       in case act of
                            NEXT_APPT \<Rightarrow>
                              (if nextApptDate c = None then (Some MissingNextDate, c, st1)
                               else
                                 (case newDateT e (nextApptDate c) (nextApptTime c) of
                                    None \<Rightarrow> (Some RangeError, c, st1)
                                  | Some next \<Rightarrow>
                                      (None, c\<lparr>completionApp := None\<rparr>,
                                       addAppointment
                                         \<lparr>a_id = uuid e 0,
                                          a_subjectId = a_subjectId capp,
                                          a_date = next,
                                          a_status = SCHEDULED,
                                          a_followUpReason = None,
                                          a_notes = Some (nextApptNotes c)\<rparr> st1)))
                          | EXIT \<Rightarrow>
                              (case getSubject st (a_subjectId capp) of
                                 None \<Rightarrow> (None, c\<lparr>completionApp := None\<rparr>, st1)
                               | Some sub \<Rightarrow>
                                   if exitReason c = EXIT_OTHER \<and> trim (exitOtherReason c) = []
                                   then (Some MissingReasonText, c, st1)
                                   else
                                     (None, c\<lparr>completionApp := None\<rparr>,
                                      snd (handleSubjectChange e DELETE sub
                                        (exitNote (exitReason c) (exitOtherReason c) (exitDate c)
                                           (isApproximate c)) st1)))))))"

text \<open>
  The completion form's own constraints, which the browser checks before it raises the
  submit event: the attendance date is \<^verbatim>\<open>required\<close>, with \<^verbatim>\<open>max\<close> today and, for a
  missed appointment, \<^verbatim>\<open>min\<close> five days back; the next visit's date is
  \<^verbatim>\<open>required\<close> with \<^verbatim>\<open>min\<close> today; the exit's date and, for \<open>OTHER\<close>, its text are
  \<^verbatim>\<open>required\<close>. The inputs of a follow-up are rendered only once it is chosen.
\<close>

definition completionFormValid :: "env \<Rightarrow> calendar \<Rightarrow> bool" where
  "completionFormValid e c =
     ((case completionDate c of
         None \<Rightarrow> False
       | Some d \<Rightarrow>
           d \<le> localDay e (now e) \<and>
           (if map_option a_status (completionApp c) = Some MISSED
            then localDay e (subDays (now e) 5) \<le> d else True)) \<and>
      (if postVisitAction c = Some NEXT_APPT
       then (case nextApptDate c of None \<Rightarrow> False | Some d \<Rightarrow> localDay e (now e) \<le> d)
       else True) \<and>
      (if postVisitAction c = Some EXIT
       then (if exitReason c = EXIT_OTHER then exitOtherReason c \<noteq> [] else True) \<and>
            exitDate c \<noteq> None
       else True))"

text \<open>Submitting the completion form: the browser's check, then the handler.\<close>

definition completeAppointment ::
  "env \<Rightarrow> calendar \<Rightarrow> app \<Rightarrow> alert option \<times> calendar \<times> app" where
  "completeAppointment e c st =
     (if completionFormValid e c then handleCompletionSubmit e c st
      else (Some ConstraintViolation, c, st))"

definition handleRescheduleSubmit ::
  "env \<Rightarrow> calendar \<Rightarrow> app \<Rightarrow> alert option \<times> calendar \<times> app" where
  "handleRescheduleSubmit e c st =
     (case rescheduleApp c of
        None \<Rightarrow> (None, c, st)
      | Some rapp \<Rightarrow>
          (case newDateT e (rescheduleDate c) (rescheduleTime c) of
             None \<Rightarrow> (None, c, st)
           | Some newIso \<Rightarrow>
               if isBefore newIso (startOfDay e (now e)) then (Some PastRescheduleDate, c, st)
               else
                 (None, c\<lparr>rescheduleApp := None\<rparr>,
                  updateAppointment
                    (rapp\<lparr>a_date := newIso,
                          a_status := SCHEDULED,
                          a_notes := Some (orEmpty (a_notes rapp) @
                            '' [System: Rescheduled from '' @
                            toLocaleDateString e (a_date rapp) @ '']'')\<rparr>) st)))"

section \<open>SubjectManager component\<close>

datatype modalModeT = M_CREATE | M_EDIT | M_DELETE

text \<open>
  \<^verbatim>\<open>formData: Partial<Subject>\<close>, on the four fields the form edits (\<open>None\<close> for
  a key the object does not hold); in edit mode the object starts as a copy of the
  selected subject, so its other keys agree with that subject's.
\<close>

record formDataT =
  fd_id :: "string option"
  fd_name :: "string option"
  fd_phone :: "string option"
  fd_altPhone :: "string option"

record subjectManager =
  modalMode :: "modalModeT option"
  selectedSubject :: "subject option"
  formData :: formDataT
  comment :: string
  sm_exitReason :: exitReasonT
  sm_exitOtherReason :: string
  sm_exitDate :: dateInput
  exitApproximate :: bool

definition handleSubmit ::
  "env \<Rightarrow> subjectManager \<Rightarrow> app \<Rightarrow> alert option \<times> subjectManager \<times> app" where
  "handleSubmit e m st =
     (if modalMode m = Some M_CREATE then
        (if trim (comment m) = [] then (Some MissingRequiredComment, m, st)
         else if orEmpty (fd_id (formData m)) \<noteq> [] \<and> orEmpty (fd_name (formData m)) \<noteq> []
         then (case handleSubjectChange e CREATE
                      \<lparr>s_id = orEmpty (fd_id (formData m)),
                       s_name = orEmpty (fd_name (formData m)),
                       s_email = None,
                       s_phone = fd_phone (formData m),
                       s_altPhone = fd_altPhone (formData m),
                       s_insertionDate = Some (now e),
                       s_notes = Some ''Manually added''\<rparr> (comment m) st of
                 (al, st1) \<Rightarrow> (al, m\<lparr>modalMode := None\<rparr>, st1))
         else (None, m\<lparr>modalMode := None\<rparr>, st))
      else if modalMode m = Some M_EDIT \<and> selectedSubject m \<noteq> None then
        (if trim (comment m) = [] then (Some MissingRequiredComment, m, st)
         else (case selectedSubject m of
                 None \<Rightarrow> (None, m\<lparr>modalMode := None\<rparr>, st)
               | Some sel \<Rightarrow>
                   (case handleSubjectChange e UPDATE
                           (sel\<lparr>s_id := (case fd_id (formData m) of None \<Rightarrow> s_id sel | Some v \<Rightarrow> v),
                                s_name := (case fd_name (formData m) of None \<Rightarrow> s_name sel | Some v \<Rightarrow> v),
                                s_phone := (case fd_phone (formData m) of None \<Rightarrow> s_phone sel | Some v \<Rightarrow> Some v),
                                s_altPhone := (case fd_altPhone (formData m) of None \<Rightarrow> s_altPhone sel
                                               | Some v \<Rightarrow> Some v)\<rparr>) (comment m) st of
                      (al, st1) \<Rightarrow> (al, m\<lparr>modalMode := None\<rparr>, st1))))
      else if modalMode m = Some M_DELETE \<and> selectedSubject m \<noteq> None then
        (case selectedSubject m of
           None \<Rightarrow> (None, m\<lparr>modalMode := None\<rparr>, st)
         | Some sel \<Rightarrow>
             if sm_exitReason m = EXIT_OTHER \<and> trim (sm_exitOtherReason m) = []
             then (Some MissingReasonText, m, st)
             else (case handleSubjectChange e DELETE sel
                          (exitNote (sm_exitReason m) (sm_exitOtherReason m) (sm_exitDate m)
                             (exitApproximate m)) st of
                     (al, st1) \<Rightarrow> (al, m\<lparr>modalMode := None\<rparr>, st1)))
      else (None, m\<lparr>modalMode := None\<rparr>, st))"

section \<open>Bulk entry (ImportExport and App)\<close>

record bulkItem =
  b_subjectId :: string
  b_name :: string
  b_phone :: string
  b_insertionDate :: "int option"
  b_appointmentDate :: "int option"
  b_remark :: string

record bulkEntryRow = bulkItem +
  isValid :: bool
  error :: string

text \<open>\<^verbatim>\<open>colData[i]?.trim() || ''\<close>.\<close>

definition col :: "string list \<Rightarrow> nat \<Rightarrow> string" where
  "col colData i = (if i < length colData then trim (colData ! i) else [])"

text \<open>
  The row \<open>handleParse\<close> builds from the cells of one pasted line. The date parser
  \<^verbatim>\<open>parseDDMMYYYY\<close> is a parameter: \<open>None\<close> is its \<^verbatim>\<open>null\<close>, and a date it accepts
  is stored by \<^verbatim>\<open>toISOString()\<close> (an empty date text is \<open>None\<close>).
\<close>

definition parseRow :: "(string \<Rightarrow> int option) \<Rightarrow> string list \<Rightarrow> bulkEntryRow" where
  "parseRow parseDDMMYYYY colData =
     (let subjectId = col colData 0;
          name = col colData 1;
          phone = col colData 2;
          insertionDateRaw = col colData 3;
          apptDateRaw = col colData 4;
          remark = col colData 5;
          insDateObj = parseDDMMYYYY insertionDateRaw;
          apptDateObj = parseDDMMYYYY apptDateRaw;
          isValidApptDate = (apptDateObj \<noteq> None)
      in \<lparr>b_subjectId = subjectId,
          b_name = name,
          b_phone = phone,
          b_insertionDate = insDateObj,
          b_appointmentDate = apptDateObj,
          b_remark = remark,
          isValid = (subjectId \<noteq> [] \<and> isValidApptDate),
          error = (if subjectId = [] then ''Missing Subject ID''
                   else if \<not> isValidApptDate then ''Invalid Appt Date (Use DD/MM/YYYY)''
                   else [])\<rparr>)"

definition handleParse :: "(string \<Rightarrow> int option) \<Rightarrow> string list list \<Rightarrow> bulkEntryRow list" where
  "handleParse parseDDMMYYYY rows = map (parseRow parseDDMMYYYY) rows"

text \<open>The object literals of \<open>handleBulkAdd\<close>.\<close>

definition newSub :: "env \<Rightarrow> bulkItem \<Rightarrow> subject" where
  "newSub e item =
     \<lparr>s_id = b_subjectId item,
      s_name = (if b_name item = [] then ''Subject '' @ b_subjectId item else b_name item),
      s_email = None,
      s_phone = Some (b_phone item),
      s_altPhone = None,
      s_insertionDate = Some (case b_insertionDate item of None \<Rightarrow> now e | Some t \<Rightarrow> t),
      s_notes = Some ''Auto-created via Bulk Multi-Column Entry''\<rparr>"

definition updated :: "subject \<Rightarrow> bulkItem \<Rightarrow> subject" where
  "updated existing item =
     existing\<lparr>s_name := (if b_name item = [] then s_name existing else b_name item),
              s_phone := strOr (b_phone item) (s_phone existing),
              s_insertionDate := (case b_insertionDate item of
                                    None \<Rightarrow> s_insertionDate existing
                                  | Some t \<Rightarrow> Some t)\<rparr>"

definition newApp :: "env \<Rightarrow> nat \<Rightarrow> bulkItem \<Rightarrow> int \<Rightarrow> appointment" where
  "newApp e k item apptDate =
     \<lparr>a_id = uuid e k,
      a_subjectId = b_subjectId item,
      a_date = apptDate,
      a_status = (if apptDate < now e then MISSED else SCHEDULED),
      a_followUpReason = (if apptDate < now e then Some ''Past date on bulk entry'' else None),
      a_notes = Some (b_remark item)\<rparr>"

text \<open>
  The \<^verbatim>\<open>items.forEach\<close> of \<open>handleBulkAdd\<close>, on the three arrays it fills. Two
  objects have the same \<^verbatim>\<open>JSON.stringify\<close> exactly when their fields agree. An item
  whose date is invalid makes \<^verbatim>\<open>toISOString()\<close> throw, which ends the handler
  (\<open>None\<close>) before any state is set.
\<close>

fun forEachItem ::
  "env \<Rightarrow> subject list \<Rightarrow> bulkItem list \<Rightarrow>
   appointment list \<times> subject list \<times> subject list \<Rightarrow>
   (appointment list \<times> subject list \<times> subject list) option" where
  "forEachItem e subs [] acc = Some acc"
| "forEachItem e subs (item # items) (newApps, newSubs, updatedSubs) =
     (let existingSub = find (\<lambda>s. s_id s = b_subjectId item) subs;
          subInNew = find (\<lambda>s. s_id s = b_subjectId item) newSubs;
          newSubs1 = (if existingSub = None \<and> subInNew = None
                      then newSubs @ [newSub e item] else newSubs);
          updatedSubs1 =
            (case existingSub of
               None \<Rightarrow> updatedSubs
             | Some existing \<Rightarrow>
                 if updated existing item \<noteq> existing
                 then updatedSubs @ [updated existing item] else updatedSubs)
      in case b_appointmentDate item of
           None \<Rightarrow> None
         | Some apptDate \<Rightarrow>
             forEachItem e subs items
               (newApps @ [newApp e (length newApps) item apptDate], newSubs1, updatedSubs1))"

text \<open>\<^verbatim>\<open>idx = next.findIndex(s => s.id === u.id); if (idx !== -1) next[idx] = u\<close>.\<close>

fun replaceFirst :: "subject \<Rightarrow> subject list \<Rightarrow> subject list" where
  "replaceFirst u [] = []"
| "replaceFirst u (s # ss) = (if s_id s = s_id u then u # ss else s # replaceFirst u ss)"

definition batchSubject :: "string \<Rightarrow> subject" where
  "batchSubject n =
     \<lparr>s_id = ''BATCH'', s_name = n, s_email = None, s_phone = None, s_altPhone = None,
      s_insertionDate = None, s_notes = None\<rparr>"

definition handleBulkAdd :: "env \<Rightarrow> bulkItem list \<Rightarrow> app \<Rightarrow> alert option \<times> app" where
  "handleBulkAdd e items st =
     (case forEachItem e (subjects st) items ([], [], []) of
        None \<Rightarrow> (Some RangeError, st)
      | Some (newApps, newSubs, updatedSubs) \<Rightarrow>
          (let logged = (newSubs \<noteq> [] \<or> updatedSubs \<noteq> []);
               st1 = (if logged
                      then addChangeLog e (length newApps) UPDATE (batchSubject ''Bulk Ops'')
                             (''Added '' @ natStr (length newSubs) @ '' new subjects and updated '' @
                              natStr (length updatedSubs) @ ''.'') ''Bulk Entry Operation''
                             (st\<lparr>subjects :=
                                foldl (\<lambda>next u. replaceFirst u next) (subjects st @ newSubs)
                                  updatedSubs\<rparr>)
                      else st);
               st2 = (if newApps \<noteq> []
                      then addChangeLog e (length newApps + (if logged then 1 else 0)) CREATE
                             (batchSubject ''Bulk Appts'')
                             (''Bulk scheduled '' @ natStr (length newApps) @ '' appointments.'')
                             ''Bulk Entry Operation''
                             (st1\<lparr>appointments := appointments st1 @ newApps\<rparr>)
                      else st1)
           in (None, st2)))"

text \<open>
  \<open>handleCommit\<close> of the bulk-entry tab: only the rows marked valid reach
  \<open>handleBulkAdd\<close>, without their \<open>isValid\<close> and \<open>error\<close> fields.
\<close>

definition handleCommit ::
  "env \<Rightarrow> bulkEntryRow list \<Rightarrow> app \<Rightarrow> alert option \<times> bulkEntryRow list \<times> app" where
  "handleCommit e previewData st =
     (let validRows = filter isValid previewData
      in if validRows = [] then (Some NoValidRows, previewData, st)
         else (case handleBulkAdd e (map bulkItem.truncate validRows) st of
                 (Some al, st1) \<Rightarrow> (Some al, previewData, st1)
               | (None, st1) \<Rightarrow> (None, [], st1)))"

text \<open>Pasting the lines, parsing them and committing the preview.\<close>

definition importBulk ::
  "env \<Rightarrow> (string \<Rightarrow> int option) \<Rightarrow> string list list \<Rightarrow> app \<Rightarrow>
   alert option \<times> bulkEntryRow list \<times> app" where
  "importBulk e parseDDMMYYYY rows st = handleCommit e (handleParse parseDDMMYYYY rows) st"

section \<open>Sample data\<close>

text \<open>
  A session on 2025-11-03 at 16:00 local time, five and a half hours ahead of UTC:
  local day 20395. The two subjects are the directory's defaults.
\<close>

definition env0 :: env where
  "env0 = \<lparr>now = 1762165800000, tz = 19800000,
            uuid = (\<lambda>k. ''uuid-'' @ natStr k),
            toLocaleDateString = (\<lambda>t. ymd ((t + 19800000) div DAY))\<rparr>"

definition subA :: subject where
  "subA = \<lparr>s_id = ''A001'', s_name = ''Alice Freeman (AIIMS)'', s_email = Some ''alice@aiims.edu'',
           s_phone = Some ''9876543210'', s_altPhone = None,
           s_insertionDate = Some 1762165800000, s_notes = None\<rparr>"

definition subS :: subject where
  "subS = \<lparr>s_id = ''S002'', s_name = ''Bob Smith (SJH)'', s_email = None,
           s_phone = Some ''8765432109'', s_altPhone = None,
           s_insertionDate = Some 1762165800000, s_notes = None\<rparr>"

text \<open>Scheduled yesterday, scheduled in two days, and missed three days ago.\<close>

definition ap1 :: appointment where
  "ap1 = \<lparr>a_id = ''ap-1'', a_subjectId = ''A001'', a_date = 1762079400000,
          a_status = SCHEDULED, a_followUpReason = None, a_notes = None\<rparr>"

definition ap2 :: appointment where
  "ap2 = \<lparr>a_id = ''ap-2'', a_subjectId = ''S002'', a_date = 1762338600000,
          a_status = SCHEDULED, a_followUpReason = None, a_notes = Some ''Monthly visit''\<rparr>"

definition ap3 :: appointment where
  "ap3 = \<lparr>a_id = ''ap-3'', a_subjectId = ''S002'', a_date = 1761906600000,
          a_status = MISSED, a_followUpReason = Some ''No show'', a_notes = None\<rparr>"

definition st0 :: app where
  "st0 = \<lparr>subjects = [subA, subS], appointments = [ap1, ap2, ap3], changeLogs = []\<rparr>"

text \<open>The calendar with no modal open.\<close>

definition cal0 :: calendar where
  "cal0 = \<lparr>editingId = None, reasonBuffer = [], rescheduleApp = None,
           rescheduleDate = None, rescheduleTime = None, completionApp = None,
           completionDate = Some 20395, isApproximate = False, postVisitAction = None,
           nextApptDate = None, nextApptTime = Some 600, nextApptNotes = [],
           exitReason = EXIT_COMPLETED, exitOtherReason = [], exitDate = Some 20395\<rparr>"

text \<open>The reschedule modal open on the missed appointment, set to today at 00:00.\<close>

definition calResched :: calendar where
  "calResched = cal0\<lparr>rescheduleApp := Some ap3, rescheduleDate := Some 20395,
                      rescheduleTime := Some 0\<rparr>"

text \<open>The same modal set to tomorrow at 10:00, and to yesterday at 23:59.\<close>

definition calReschedTomorrow :: calendar where
  "calReschedTomorrow = calResched\<lparr>rescheduleDate := Some 20396, rescheduleTime := Some 600\<rparr>"

definition calReschedYesterday :: calendar where
  "calReschedYesterday = calResched\<lparr>rescheduleDate := Some 20394, rescheduleTime := Some 1439\<rparr>"

text \<open>
  The exit modal of the subject directory, open on the second subject with reason
  \<open>OTHER\<close>: once with a single space as its text, once with a real reason.
\<close>

definition smExit :: subjectManager where
  "smExit = \<lparr>modalMode = Some M_DELETE, selectedSubject = Some subS,
             formData = \<lparr>fd_id = None, fd_name = None, fd_phone = None, fd_altPhone = None\<rparr>,
             comment = [], sm_exitReason = EXIT_OTHER, sm_exitOtherReason = '' '',
             sm_exitDate = Some 20395, exitApproximate = True\<rparr>"

definition smExitMoved :: subjectManager where
  "smExitMoved = smExit\<lparr>sm_exitOtherReason := ''Moved away''\<rparr>"


text \<open>
  The completion modal: correcting the missed appointment to five days ago and to six
  days ago, with a next visit in two weeks; and completing the scheduled appointment
  with an exit for reason \<open>OTHER\<close> whose text is a single space.
\<close>

definition calCorrect :: calendar where
  "calCorrect = cal0\<lparr>completionApp := Some ap3, completionDate := Some 20390,
     postVisitAction := Some NEXT_APPT, nextApptDate := Some 20409\<rparr>"

definition calCorrectLate :: calendar where
  "calCorrectLate = calCorrect\<lparr>completionDate := Some 20389\<rparr>"

definition calExitBlank :: calendar where
  "calExitBlank = cal0\<lparr>completionApp := Some ap2, postVisitAction := Some EXIT,
     exitReason := EXIT_OTHER, exitOtherReason := '' ''\<rparr>"

text \<open>
  A paste of three lines whose second line has no parseable appointment date, and a
  parser standing for \<^verbatim>\<open>parseDDMMYYYY\<close> on the date texts of this paste.
\<close>

definition parse0 :: "string \<Rightarrow> int option" where
  "parse0 s = (if s = ''05/11/2025'' then Some 1762281000000
               else if s = ''01/10/2025'' then Some 1759257000000 else None)"

definition cells0 :: "string list list" where
  "cells0 =
     [[''A001'', ''Alice Freeman'', ''9876543210'', '''', ''05/11/2025'', ''Follow-up''],
      [''S002'', ''Bob Smith'', ''8765432109'', '''', ''not a date'', ''Check''],
      [''N009'', ''Nina Rao'', ''7000000001'', ''01/10/2025'', ''01/10/2025'', ''Baseline'']]"

text \<open>Two rows of one batch for the same new subject, with different names and phones.\<close>

definition rowNina :: bulkItem where
  "rowNina = \<lparr>b_subjectId = ''N009'', b_name = ''Nina'', b_phone = ''7000000001'',
              b_insertionDate = None, b_appointmentDate = Some 1759257000000,
              b_remark = ''Baseline''\<rparr>"

definition rowNinaRao :: bulkItem where
  "rowNinaRao = \<lparr>b_subjectId = ''N009'', b_name = ''Nina Rao'', b_phone = ''7000000002'',
                 b_insertionDate = Some 1759257000000, b_appointmentDate = Some 1762281000000,
                 b_remark = ''Follow-up''\<rparr>"


definition smExitNbsp :: subjectManager where
  "smExitNbsp = smExit\<lparr>sm_exitOtherReason := [CHR 0xA0]\<rparr>"

section \<open>Sample values\<close>

lemma ymd_20392: "ymd 20392 = ''2025-10-31''"
  by code_simp

lemma ymd_20395: "ymd 20395 = ''2025-11-03''"
  by code_simp

lemma natStr_digits: "natStr 0 = ''0''" "natStr 1 = ''1''" "natStr 2 = ''2''" "natStr 3 = ''3''"
  by code_simp+

lemma natStr_Suc_0: "natStr (Suc 0) = ''1''"
  using natStr_digits(2) by simp

lemma uuid0: "uuid env0 k = ''uuid-'' @ natStr k"
  by (simp add: env0_def)

lemma now0: "now env0 = 1762165800000"
  by (simp add: env0_def)

lemma today0: "localDay env0 (now env0) = 20395"
  by (simp add: localDay_def env0_def DAY_def)

lemma valid0: "filter isValid (handleParse parse0 cells0) =
    [parseRow parse0 (cells0 ! 0), parseRow parse0 (cells0 ! 2)]"
  by (simp add: handleParse_def cells0_def parseRow_def col_def trim_def isSpace_def parse0_def
      Let_def)

section \<open>Calendar days\<close>

text \<open>
  Going back \<open>n\<close> days moves the local calendar day back by \<open>n\<close>, and a day's local
  midnight is before the start of the day \<open>n\<close> days ago exactly when the day is earlier.
\<close>

lemma DAY_pos: "0 < DAY"
  by (simp add: DAY_def)

lemma localDay_subDays: "localDay e (subDays t n) = localDay e t - n"
proof -
  have ne: "DAY \<noteq> 0" using DAY_pos by simp
  have eq: "t - n * DAY + tz e = (t + tz e) + (- n) * DAY" by simp
  have "((t + tz e) + (- n) * DAY) div DAY = (- n) + (t + tz e) div DAY"
    using ne by (rule div_mult_self1)
  then show ?thesis
    unfolding localDay_def subDays_def eq by simp
qed

lemma before_limit:
  "isBefore (parseISO e d) (startOfDay e (subDays (now e) n)) \<longleftrightarrow> d < localDay e (now e) - n"
proof -
  have "d * DAY < (localDay e (now e) - n) * DAY \<longleftrightarrow> d < localDay e (now e) - n"
    using DAY_pos by (simp add: mult_less_cancel_right)
  then show ?thesis
    by (simp add: isBefore_def parseISO_def startOfDay_def localDay_subDays)
qed

section \<open>The bulk-entry loop\<close>

text \<open>
  When every item carries a date the loop runs to its end and stages one appointment
  per item. For an id that is not in the directory, the staged new subjects hold the
  subject of the first item with that id and no other, and no staged update has that id.
\<close>

lemma truncate_sel:
  "b_subjectId (bulkItem.truncate r) = b_subjectId r"
  "b_name (bulkItem.truncate r) = b_name r"
  "b_phone (bulkItem.truncate r) = b_phone r"
  "b_insertionDate (bulkItem.truncate r) = b_insertionDate r"
  "b_appointmentDate (bulkItem.truncate r) = b_appointmentDate r"
  "b_remark (bulkItem.truncate r) = b_remark r"
  by (simp_all add: bulkItem.truncate_def)

lemma parseRow_valid:
  "isValid (parseRow p cs) \<longleftrightarrow> col cs 0 \<noteq> [] \<and> p (col cs 4) \<noteq> None"
  "b_appointmentDate (parseRow p cs) = p (col cs 4)"
  "b_subjectId (parseRow p cs) = col cs 0"
  by (simp_all add: parseRow_def Let_def)

lemma forEachItem_apps:
  "\<forall>it \<in> set items. b_appointmentDate it \<noteq> None \<Longrightarrow>
   \<exists>ns us. forEachItem e subs items (apps, nsub, usub) =
     Some (apps @ map (\<lambda>(k, it). newApp e k it (the (b_appointmentDate it)))
                    (enumerate (length apps) items), ns, us)"
proof (induction items arbitrary: apps nsub usub)
  case Nil
  then show ?case by simp
next
  case (Cons item items)
  then obtain d where d: "b_appointmentDate item = Some d" by auto
  have rest: "\<forall>it \<in> set items. b_appointmentDate it \<noteq> None" using Cons.prems by simp
  show ?case
    using Cons.IH [OF rest, of "apps @ [newApp e (length apps) item d]"] d
    by (simp add: Let_def)
qed

lemma handleBulkAdd_apps:
  assumes "\<forall>it \<in> set items. b_appointmentDate it \<noteq> None"
  shows "fst (handleBulkAdd e items st) = None"
    and "appointments (snd (handleBulkAdd e items st)) =
           appointments st @ map (\<lambda>(k, it). newApp e k it (the (b_appointmentDate it)))
                                 (enumerate 0 items)"
proof -
  obtain ns us where run: "forEachItem e (subjects st) items ([], [], []) =
      Some (map (\<lambda>(k, it). newApp e k it (the (b_appointmentDate it))) (enumerate 0 items), ns, us)"
    using forEachItem_apps [OF assms, of e "subjects st" "[]" "[]" "[]"] by auto
  show "fst (handleBulkAdd e items st) = None"
    by (simp add: handleBulkAdd_def run Let_def)
  show "appointments (snd (handleBulkAdd e items st)) =
           appointments st @ map (\<lambda>(k, it). newApp e k it (the (b_appointmentDate it)))
                                 (enumerate 0 items)"
    by (simp add: handleBulkAdd_def run Let_def addChangeLog_def)
qed

lemma find_None_filter: "(find P xs = None) = (filter P xs = [])"
  by (auto simp: find_None_iff filter_empty_conv)

lemma find_SomeD: "find P xs = Some x \<Longrightarrow> P x \<and> x \<in> set xs"
  by (induction xs) (auto split: if_splits)

lemma s_id_newSub: "s_id (newSub e item) = b_subjectId item"
  by (simp add: newSub_def)

lemma s_id_updated: "s_id (updated existing item) = s_id existing"
  by (simp add: updated_def)

lemma forEachItem_newSubs:
  assumes "forEachItem e subs items (apps, ns, us) = Some (apps', ns', us')"
    and "find (\<lambda>s. s_id s = k) subs = None"
  shows "filter (\<lambda>s. s_id s = k) ns' =
           (if filter (\<lambda>s. s_id s = k) ns \<noteq> [] then filter (\<lambda>s. s_id s = k) ns
            else (case find (\<lambda>r. b_subjectId r = k) items of
                    None \<Rightarrow> []
                  | Some r \<Rightarrow> [newSub e r]))"
  using assms
proof (induction items arbitrary: apps ns us)
  case Nil
  then show ?case by simp
next
  case (Cons item items)
  define ns1 where "ns1 =
    (if find (\<lambda>s. s_id s = b_subjectId item) subs = None \<and>
        find (\<lambda>s. s_id s = b_subjectId item) ns = None
     then ns @ [newSub e item] else ns)"
  obtain apps1 us1 where
    rec: "forEachItem e subs items (apps1, ns1, us1) = Some (apps', ns', us')"
    using Cons.prems(1) by (auto simp: Let_def ns1_def split: option.splits)
  note IH = Cons.IH [OF rec Cons.prems(2)]
  show ?case
  proof (cases "b_subjectId item = k")
    case True
    then show ?thesis
      using IH Cons.prems(2)
      by (auto simp: ns1_def find_None_filter s_id_newSub)
  next
    case False
    then have "filter (\<lambda>s. s_id s = k) ns1 = filter (\<lambda>s. s_id s = k) ns"
      by (simp add: ns1_def s_id_newSub)
    then show ?thesis
      using IH False by simp
  qed
qed

lemma forEachItem_updatedSubs:
  assumes "forEachItem e subs items (apps, ns, us) = Some (apps', ns', us')"
    and "find (\<lambda>s. s_id s = k) subs = None"
    and "\<forall>u \<in> set us. s_id u \<noteq> k"
  shows "\<forall>u \<in> set us'. s_id u \<noteq> k"
  using assms
proof (induction items arbitrary: apps ns us)
  case Nil
  then show ?case by simp
next
  case (Cons item items)
  define us1 where "us1 =
    (case find (\<lambda>s. s_id s = b_subjectId item) subs of
       None \<Rightarrow> us
     | Some existing \<Rightarrow>
         if updated existing item \<noteq> existing then us @ [updated existing item] else us)"
  obtain apps1 ns1 where
    rec: "forEachItem e subs items (apps1, ns1, us1) = Some (apps', ns', us')"
    using Cons.prems(1) by (auto simp: Let_def us1_def split: option.splits)
  have "\<forall>u \<in> set us1. s_id u \<noteq> k"
  proof (cases "find (\<lambda>s. s_id s = b_subjectId item) subs")
    case None
    then show ?thesis using Cons.prems(3) by (simp add: us1_def)
  next
    case (Some existing)
    then have "existing \<in> set subs" by (auto dest: find_SomeD)
    then have "s_id existing \<noteq> k"
      using Cons.prems(2) by (auto simp: find_None_iff)
    then show ?thesis
      using Some Cons.prems(3) by (auto simp: us1_def s_id_updated)
  qed
  then show ?case
    using Cons.IH [OF rec Cons.prems(2)] by simp
qed

lemma replaceFirst_filter:
  "s_id u \<noteq> k \<Longrightarrow>
   filter (\<lambda>s. s_id s = k) (replaceFirst u xs) = filter (\<lambda>s. s_id s = k) xs"
  by (induction xs) auto

lemma foldl_replaceFirst_filter:
  "\<forall>u \<in> set us. s_id u \<noteq> k \<Longrightarrow>
   filter (\<lambda>s. s_id s = k) (foldl (\<lambda>next u. replaceFirst u next) xs us) =
   filter (\<lambda>s. s_id s = k) xs"
  by (induction us arbitrary: xs) (simp_all add: replaceFirst_filter)

section \<open>Bootstrap auto-miss pass\<close>

text \<open>
  C4. After the auto-miss pass with reference time \<open>now e\<close>, no appointment is both
  \<open>SCHEDULED\<close> and dated strictly before \<open>now e\<close>. The pass keeps the length and the
  order of the store; an appointment that was \<open>SCHEDULED\<close> and past comes out \<open>MISSED\<close>
  with follow-up reason "Auto-detected: Past date" and the system note appended to its
  notes, all its other fields kept; every other appointment comes out unchanged.
\<close>

theorem autoMiss_pass:
  "length (updatedApps e apps) = length apps \<and>
   (\<forall>a \<in> set (updatedApps e apps). a_status a = SCHEDULED \<longrightarrow> now e \<le> a_date a) \<and>
   (\<forall>i < length apps.
      (if a_status (apps ! i) = SCHEDULED \<and> a_date (apps ! i) < now e
       then updatedApps e apps ! i =
              (apps ! i)\<lparr>a_status := MISSED,
                          a_followUpReason := Some ''Auto-detected: Past date'',
                          a_notes := Some (orEmpty (a_notes (apps ! i)) @
                                           '' [System: Marked as Missed]'')\<rparr>
       else updatedApps e apps ! i = apps ! i))"
  by (auto simp: updatedApps_def)

theorem autoMiss_pass_witness:
  "a_status ap1 = SCHEDULED \<and> a_date ap1 < now env0 \<and>
   updatedApps env0 [ap1, ap2, ap3] =
     [\<lparr>a_id = ''ap-1'', a_subjectId = ''A001'', a_date = 1762079400000, a_status = MISSED,
       a_followUpReason = Some ''Auto-detected: Past date'',
       a_notes = Some '' [System: Marked as Missed]''\<rparr>, ap2, ap3] \<and>
   a_status ap2 = SCHEDULED \<and> now env0 \<le> a_date ap2"
  using autoMiss_pass [of env0 "[ap1, ap2, ap3]"]
  by (simp add: updatedApps_def ap1_def ap2_def ap3_def env0_def orEmpty_def)

section \<open>Status updates\<close>

text \<open>
  C10. \<open>updateStatus\<close> on an existing appointment keeps the appointment's previous
  follow-up reason when the reason supplied is omitted or the empty string, and stores
  the supplied reason exactly when it is non-empty.
\<close>

theorem updateStatus_followUpReason:
  assumes "i < length (appointments st)" "a_id (appointments st ! i) = k"
  shows "a_followUpReason (appointments (updateStatus e k status reason st) ! i) =
           (if reason = None \<or> reason = Some [] then a_followUpReason (appointments st ! i)
            else reason)"
  using assms
  by (auto simp: updateStatus_def Let_def optOr_def strOr_def addChangeLog_def
      split: option.splits)

theorem updateStatus_followUpReason_witness:
  "2 < length (appointments st0) \<and> a_id (appointments st0 ! 2) = ''ap-3'' \<and>
   a_followUpReason (appointments (updateStatus env0 ''ap-3'' MISSED (Some []) st0) ! 2) =
     Some ''No show'' \<and>
   a_followUpReason (appointments (updateStatus env0 ''ap-3'' MISSED None st0) ! 2) =
     Some ''No show'' \<and>
   a_followUpReason (appointments (updateStatus env0 ''ap-3'' MISSED (Some ''Ill'') st0) ! 2) =
     Some ''Ill''"
  using updateStatus_followUpReason [of 2 st0 "''ap-3''" env0 MISSED "Some []"]
        updateStatus_followUpReason [of 2 st0 "''ap-3''" env0 MISSED None]
        updateStatus_followUpReason [of 2 st0 "''ap-3''" env0 MISSED "Some ''Ill''"]
  by (simp add: st0_def ap1_def ap2_def ap3_def)

text \<open>
  C6. Asking for \<open>MISSED\<close> on an appointment dated strictly after now is rejected with
  the alert and changes neither the store nor the calendar's state. When the date is at
  or before now the request is accepted: the reason editor opens on that appointment
  (from which \<open>saveReason\<close> records the status), the store still unchanged.
\<close>

theorem missed_future_rejected:
  assumes "find (\<lambda>a. a_id a = i) (appointments st) = Some app"
  shows "(now e < a_date app \<longrightarrow>
            handleStatusUpdate e i MISSED c st = (Some FutureMissedNotAllowed, c, st)) \<and>
         (a_date app \<le> now e \<longrightarrow>
            handleStatusUpdate e i MISSED c st =
              (None, c\<lparr>editingId := Some i,
                        reasonBuffer := orEmpty (a_followUpReason app)\<rparr>, st))"
  using assms by (simp add: handleStatusUpdate_def isAfter_def)

theorem missed_future_rejected_witness:
  "find (\<lambda>a. a_id a = ''ap-2'') (appointments st0) = Some ap2 \<and> now env0 < a_date ap2 \<and>
   handleStatusUpdate env0 ''ap-2'' MISSED cal0 st0 = (Some FutureMissedNotAllowed, cal0, st0) \<and>
   find (\<lambda>a. a_id a = ''ap-1'') (appointments st0) = Some ap1 \<and> a_date ap1 \<le> now env0 \<and>
   fst (handleStatusUpdate env0 ''ap-1'' MISSED cal0 st0) = None \<and>
   editingId (fst (snd (handleStatusUpdate env0 ''ap-1'' MISSED cal0 st0))) = Some ''ap-1''"
  using missed_future_rejected [of "''ap-2''" st0 ap2 env0 cal0]
        missed_future_rejected [of "''ap-1''" st0 ap1 env0 cal0]
  by (simp add: st0_def ap1_def ap2_def ap3_def env0_def)

section \<open>Rescheduling\<close>

text \<open>
  C7 does not hold as stated: a new date and time equal to the start of the current day
  is not strictly after it, and the reschedule goes through. Here the missed appointment
  is moved to today at 00:00.
\<close>

theorem reschedule_at_start_of_day_counterexample:
  "a_status ap3 = MISSED \<and>
   newDateT env0 (rescheduleDate calResched) (rescheduleTime calResched) =
     Some (startOfDay env0 (now env0)) \<and>
   handleRescheduleSubmit env0 calResched st0 =
     (None, calResched\<lparr>rescheduleApp := None\<rparr>,
      st0\<lparr>appointments := [ap1, ap2,
        ap3\<lparr>a_date := startOfDay env0 (now env0), a_status := SCHEDULED,
            a_notes := Some '' [System: Rescheduled from 2025-10-31]''\<rparr>]\<rparr>)"
  by (simp add: handleRescheduleSubmit_def calResched_def cal0_def newDateT_def startOfDay_def
      localDay_def DAY_def env0_def isBefore_def updateAppointment_def st0_def ap1_def ap2_def
      ap3_def orEmpty_def ymd_20392)

text \<open>
  C7, amended. With an appointment open in the reschedule modal and a date and a time
  entered, the reschedule is rejected exactly when the new instant is before the start
  of the current day, and then nothing changes. Otherwise (at or after the start of the
  current day) it succeeds: every appointment with the id of the one rescheduled is
  replaced by it with the same id, the new date, status \<open>SCHEDULED\<close> and a note recording
  the original date appended; all other appointments, the subjects and the change log
  are unchanged.
\<close>

theorem reschedule_not_before_today:
  assumes "rescheduleApp c = Some rapp"
    and "newDateT e (rescheduleDate c) (rescheduleTime c) = Some newIso"
  shows "(newIso < startOfDay e (now e) \<longrightarrow>
            handleRescheduleSubmit e c st = (Some PastRescheduleDate, c, st)) \<and>
         (startOfDay e (now e) \<le> newIso \<longrightarrow>
            fst (handleRescheduleSubmit e c st) = None \<and>
            length (appointments (snd (snd (handleRescheduleSubmit e c st)))) =
              length (appointments st) \<and>
            (\<forall>i < length (appointments st).
               appointments (snd (snd (handleRescheduleSubmit e c st))) ! i =
                 (if a_id (appointments st ! i) = a_id rapp
                  then rapp\<lparr>a_date := newIso, a_status := SCHEDULED,
                            a_notes := Some (orEmpty (a_notes rapp) @
                              '' [System: Rescheduled from '' @
                              toLocaleDateString e (a_date rapp) @ '']'')\<rparr>
                  else appointments st ! i)) \<and>
            subjects (snd (snd (handleRescheduleSubmit e c st))) = subjects st \<and>
            changeLogs (snd (snd (handleRescheduleSubmit e c st))) = changeLogs st)"
  using assms
  by (simp add: handleRescheduleSubmit_def isBefore_def updateAppointment_def)

theorem reschedule_not_before_today_witness:
  "rescheduleApp calReschedTomorrow = Some ap3 \<and>
   newDateT env0 (rescheduleDate calReschedTomorrow) (rescheduleTime calReschedTomorrow) =
     Some 1762230600000 \<and>
   startOfDay env0 (now env0) \<le> 1762230600000 \<and>
   fst (handleRescheduleSubmit env0 calReschedTomorrow st0) = None \<and>
   appointments (snd (snd (handleRescheduleSubmit env0 calReschedTomorrow st0))) ! 2 =
     \<lparr>a_id = ''ap-3'', a_subjectId = ''S002'', a_date = 1762230600000, a_status = SCHEDULED,
      a_followUpReason = Some ''No show'',
      a_notes = Some '' [System: Rescheduled from 2025-10-31]''\<rparr> \<and>
   rescheduleApp calReschedYesterday = Some ap3 \<and>
   newDateT env0 (rescheduleDate calReschedYesterday) (rescheduleTime calReschedYesterday) =
     Some 1762108140000 \<and>
   1762108140000 < startOfDay env0 (now env0) \<and>
   handleRescheduleSubmit env0 calReschedYesterday st0 =
     (Some PastRescheduleDate, calReschedYesterday, st0)"
  using reschedule_not_before_today [of calReschedTomorrow ap3 env0 1762230600000 st0]
        reschedule_not_before_today [of calReschedYesterday ap3 env0 1762108140000 st0]
  by (simp add: calReschedTomorrow_def calReschedYesterday_def calResched_def cal0_def
      newDateT_def startOfDay_def localDay_def DAY_def env0_def st0_def ap1_def ap2_def ap3_def
      orEmpty_def ymd_20392)

section \<open>Subject exit\<close>

text \<open>
  C8 does not hold as stated: a freeform text that is not empty but holds only white
  space is rejected too, since the handler trims it before the test.
\<close>

theorem exit_other_blank_counterexample:
  "sm_exitReason smExit = EXIT_OTHER \<and> sm_exitOtherReason smExit \<noteq> [] \<and>
   handleSubmit env0 smExit st0 = (Some MissingReasonText, smExit, st0)"
  by (simp add: handleSubmit_def smExit_def trim_def isSpace_def)

text \<open>
  C8, amended. The exit workflow on a selected subject is rejected, with nothing
  changed, exactly when the reason is \<open>OTHER\<close> and the freeform text is empty after
  trimming white space (a text of spaces, tabs, line breaks or no-break spaces only is
  rejected like the empty text). Otherwise it succeeds: the subject is removed from the
  directory, exactly one \<open>DELETE\<close> entry is appended to the change log, whose comment
  is "Exit Study: " followed by the structured reason (for \<open>OTHER\<close>, with the text), " on ",
  the date, and the marker " (approx)" when the date is approximate; and the appointment
  store, with the subject's historical appointments, is unchanged.
\<close>

theorem exit_workflow:
  assumes "modalMode m = Some M_DELETE" and "selectedSubject m = Some sel"
  shows "(sm_exitReason m = EXIT_OTHER \<and> trim (sm_exitOtherReason m) = [] \<longrightarrow>
            handleSubmit e m st = (Some MissingReasonText, m, st)) \<and>
         (sm_exitReason m \<noteq> EXIT_OTHER \<or> trim (sm_exitOtherReason m) \<noteq> [] \<longrightarrow>
            fst (handleSubmit e m st) = None \<and>
            subjects (snd (snd (handleSubmit e m st))) =
              filter (\<lambda>s. s_id s \<noteq> s_id sel) (subjects st) \<and>
            changeLogs (snd (snd (handleSubmit e m st))) = changeLogs st @
              [\<lparr>l_id = uuid e 0, l_timestamp = now e, l_subjectId = s_id sel,
                l_subjectName = s_name sel, l_changeType = DELETE,
                l_details = ''Exited Subject from study'',
                l_comment = ''Exit Study: '' @
                  (if sm_exitReason m = EXIT_OTHER then ''OTHER: '' @ sm_exitOtherReason m
                   else exitReasonStr (sm_exitReason m)) @
                  '' on '' @ dateText (sm_exitDate m) @
                  (if exitApproximate m then '' (approx)'' else [])\<rparr>] \<and>
            appointments (snd (snd (handleSubmit e m st))) = appointments st)"
  using assms
  by (auto simp: handleSubmit_def handleSubjectChange_def addChangeLog_def exitNote_def
      finalReason_def)

theorem exit_workflow_witness:
  "modalMode smExitMoved = Some M_DELETE \<and> selectedSubject smExitMoved = Some subS \<and>
   trim (sm_exitOtherReason smExitMoved) \<noteq> [] \<and>
   handleSubmit env0 smExitMoved st0 =
     (None, smExitMoved\<lparr>modalMode := None\<rparr>,
      st0\<lparr>subjects := [subA],
          changeLogs := [\<lparr>l_id = ''uuid-0'', l_timestamp = 1762165800000, l_subjectId = ''S002'',
            l_subjectName = ''Bob Smith (SJH)'', l_changeType = DELETE,
            l_details = ''Exited Subject from study'',
            l_comment = ''Exit Study: OTHER: Moved away on 2025-11-03 (approx)''\<rparr>]\<rparr>) \<and>
   filter (\<lambda>a. a_subjectId a = ''S002'')
     (appointments (snd (snd (handleSubmit env0 smExitMoved st0)))) = [ap2, ap3] \<and>
   sm_exitReason (smExit\<lparr>sm_exitOtherReason := []\<rparr>) = EXIT_OTHER \<and>
   handleSubmit env0 (smExit\<lparr>sm_exitOtherReason := []\<rparr>) st0 =
     (Some MissingReasonText, smExit\<lparr>sm_exitOtherReason := []\<rparr>, st0) \<and>
   sm_exitReason smExitNbsp = EXIT_OTHER \<and> trim (sm_exitOtherReason smExitNbsp) = [] \<and>
   handleSubmit env0 smExitNbsp st0 = (Some MissingReasonText, smExitNbsp, st0)"
  using exit_workflow [of smExitMoved subS env0 st0]
        exit_workflow [of "smExit\<lparr>sm_exitOtherReason := []\<rparr>" subS env0 st0]
        exit_workflow [of smExitNbsp subS env0 st0]
  by (simp add: handleSubmit_def handleSubjectChange_def addChangeLog_def exitNote_def
      finalReason_def smExitMoved_def smExitNbsp_def smExit_def trim_def isSpace_def st0_def
      subA_def subS_def ap1_def ap2_def ap3_def env0_def dateText_def ymd_20395 natStr_digits)

section \<open>Change-log effects of the handlers\<close>













section \<open>Change log\<close>




section \<open>Completion\<close>

text \<open>
  C2. Days are local calendar days, the attendance date being the value of a date
  input. For a missed appointment, submitting the completion form succeeds only when
  the attendance date lies between five days before today and today, both ends included.
  A date outside this window is rejected with nothing changed: the form's \<^verbatim>\<open>min\<close> and
  \<^verbatim>\<open>max\<close> constraints stop the submission, and for a date more than five days back the
  handler itself raises the correction-window alert. Inside the window, the boundary of
  five days back included, with a next visit dated today or later and a time entered, or
  with an exit for a reason other than \<open>OTHER\<close> and its date entered, the submission
  succeeds and every appointment with the corrected one's id is \<open>COMPLETED\<close>, dated on
  the attendance day at the original time of day.
\<close>

theorem correction_window:
  assumes "completionApp c = Some capp" and "a_status capp = MISSED"
    and "completionDate c = Some d"
  shows "(d < localDay e (now e) - 5 \<or> localDay e (now e) < d \<longrightarrow>
            completeAppointment e c st = (Some ConstraintViolation, c, st)) \<and>
         (d < localDay e (now e) - 5 \<longrightarrow>
            handleCompletionSubmit e c st = (Some CorrectionWindowExceeded, c, st)) \<and>
         (fst (completeAppointment e c st) = None \<longrightarrow>
            localDay e (now e) - 5 \<le> d \<and> d \<le> localDay e (now e)) \<and>
         (localDay e (now e) - 5 \<le> d \<and> d \<le> localDay e (now e) \<and>
          postVisitAction c = Some NEXT_APPT \<and> nextApptDate c = Some nd \<and>
          localDay e (now e) \<le> nd \<and> nextApptTime c = Some tm \<longrightarrow>
            fst (completeAppointment e c st) = None \<and>
            (\<forall>i < length (appointments st). a_id (appointments st ! i) = a_id capp \<longrightarrow>
               a_status (appointments (snd (snd (completeAppointment e c st))) ! i) = COMPLETED \<and>
               a_date (appointments (snd (snd (completeAppointment e c st))) ! i) =
                 d * DAY + int (formatHHmm e (a_date capp)) * 60000 - tz e)) \<and>
         (localDay e (now e) - 5 \<le> d \<and> d \<le> localDay e (now e) \<and>
          postVisitAction c = Some EXIT \<and> exitDate c = Some xd \<and>
          exitReason c \<noteq> EXIT_OTHER \<longrightarrow>
            fst (completeAppointment e c st) = None \<and>
            (\<forall>i < length (appointments st). a_id (appointments st ! i) = a_id capp \<longrightarrow>
               a_status (appointments (snd (snd (completeAppointment e c st))) ! i) = COMPLETED \<and>
               a_date (appointments (snd (snd (completeAppointment e c st))) ! i) =
                 d * DAY + int (formatHHmm e (a_date capp)) * 60000 - tz e))"
proof (intro conjI impI)
  assume "d < localDay e (now e) - 5 \<or> localDay e (now e) < d"
  then have "\<not> completionFormValid e c"
    using assms by (auto simp: completionFormValid_def localDay_subDays)
  then show "completeAppointment e c st = (Some ConstraintViolation, c, st)"
    by (simp add: completeAppointment_def)
next
  assume "d < localDay e (now e) - 5"
  then show "handleCompletionSubmit e c st = (Some CorrectionWindowExceeded, c, st)"
    using assms by (simp add: handleCompletionSubmit_def before_limit)
next
  assume ok: "fst (completeAppointment e c st) = None"
  then have "completionFormValid e c"
    by (simp add: completeAppointment_def split: if_splits)
  then show "localDay e (now e) - 5 \<le> d" and "d \<le> localDay e (now e)"
    using assms by (simp_all add: completionFormValid_def localDay_subDays split: if_splits)
next
  assume h: "localDay e (now e) - 5 \<le> d \<and> d \<le> localDay e (now e) \<and>
          postVisitAction c = Some NEXT_APPT \<and> nextApptDate c = Some nd \<and>
          localDay e (now e) \<le> nd \<and> nextApptTime c = Some tm"
  then have valid: "completionFormValid e c"
    using assms by (simp add: completionFormValid_def localDay_subDays)
  have nb: "\<not> isBefore (parseISO e d) (startOfDay e (subDays (now e) 5))"
    using h by (simp add: before_limit)
  have run: "completeAppointment e c st =
      (None, c\<lparr>completionApp := None\<rparr>,
       addAppointment
         \<lparr>a_id = uuid e 0, a_subjectId = a_subjectId capp,
          a_date = nd * DAY + int tm * 60000 - tz e, a_status = SCHEDULED,
          a_followUpReason = None, a_notes = Some (nextApptNotes c)\<rparr>
         (updateAppointment
            (capp\<lparr>a_status := COMPLETED,
                  a_date := d * DAY + int (formatHHmm e (a_date capp)) * 60000 - tz e,
                  a_followUpReason := None,
                  a_notes := Some (orEmpty (a_notes capp) @ '' [Attended on '' @
                    dateText (completionDate c) @
                    (if isApproximate c then '' (approx)'' else []) @ '']'')\<rparr>) st))"
    using assms h valid nb
    by (simp add: completeAppointment_def handleCompletionSubmit_def newDateT_def Let_def)
  show "fst (completeAppointment e c st) = None"
    by (simp add: run)
  show "\<forall>i < length (appointments st). a_id (appointments st ! i) = a_id capp \<longrightarrow>
               a_status (appointments (snd (snd (completeAppointment e c st))) ! i) = COMPLETED \<and>
               a_date (appointments (snd (snd (completeAppointment e c st))) ! i) =
                 d * DAY + int (formatHHmm e (a_date capp)) * 60000 - tz e"
    by (simp add: run updateAppointment_def addAppointment_def nth_append)
next
  assume h: "localDay e (now e) - 5 \<le> d \<and> d \<le> localDay e (now e) \<and>
          postVisitAction c = Some EXIT \<and> exitDate c = Some xd \<and>
          exitReason c \<noteq> EXIT_OTHER"
  then have valid: "completionFormValid e c"
    using assms by (simp add: completionFormValid_def localDay_subDays)
  have nb: "\<not> isBefore (parseISO e d) (startOfDay e (subDays (now e) 5))"
    using h by (simp add: before_limit)
  have run: "fst (completeAppointment e c st) = None \<and>
      appointments (snd (snd (completeAppointment e c st))) =
        appointments (updateAppointment
            (capp\<lparr>a_status := COMPLETED,
                  a_date := d * DAY + int (formatHHmm e (a_date capp)) * 60000 - tz e,
                  a_followUpReason := None,
                  a_notes := Some (orEmpty (a_notes capp) @ '' [Attended on '' @
                    dateText (completionDate c) @
                    (if isApproximate c then '' (approx)'' else []) @ '']'')\<rparr>) st)"
    using assms h valid nb
    by (simp add: completeAppointment_def handleCompletionSubmit_def newDateT_def Let_def
        handleSubjectChange_def addChangeLog_def updateAppointment_def split: option.splits)
  show "fst (completeAppointment e c st) = None"
    by (simp add: run)
  show "\<forall>i < length (appointments st). a_id (appointments st ! i) = a_id capp \<longrightarrow>
               a_status (appointments (snd (snd (completeAppointment e c st))) ! i) = COMPLETED \<and>
               a_date (appointments (snd (snd (completeAppointment e c st))) ! i) =
                 d * DAY + int (formatHHmm e (a_date capp)) * 60000 - tz e"
    by (simp add: run updateAppointment_def)
qed

theorem correction_window_witness:
  "completionApp calCorrect = Some ap3 \<and> a_status ap3 = MISSED \<and>
   completionDate calCorrect = Some (localDay env0 (now env0) - 5) \<and>
   fst (completeAppointment env0 calCorrect st0) = None \<and>
   a_status (appointments (snd (snd (completeAppointment env0 calCorrect st0))) ! 2) = COMPLETED \<and>
   completionDate calCorrectLate = Some (localDay env0 (now env0) - 6) \<and>
   completeAppointment env0 calCorrectLate st0 = (Some ConstraintViolation, calCorrectLate, st0) \<and>
   handleCompletionSubmit env0 calCorrectLate st0 =
     (Some CorrectionWindowExceeded, calCorrectLate, st0)"
  using correction_window [of calCorrect ap3 20390 env0 st0 20409 600 20395]
        correction_window [of calCorrectLate ap3 20389 env0 st0 20409 600 20395]
  by (simp add: today0 calCorrect_def calCorrectLate_def cal0_def st0_def ap1_def ap2_def ap3_def)

text \<open>
  C1, evaluated on the code. The completion form passes the browser's check (a text of
  one space satisfies \<^verbatim>\<open>required\<close>), the handler replaces the appointment by its
  \<open>COMPLETED\<close> copy, and only then rejects the blank \<open>OTHER\<close> reason: the status has
  changed, the subject is still in the directory, no appointment was added and nothing
  was logged. With no follow-up chosen, the same form is rejected with nothing changed.
\<close>

theorem completion_without_follow_up:
  "completionFormValid env0 calExitBlank \<and>
   completeAppointment env0 calExitBlank st0 =
     (Some MissingReasonText, calExitBlank,
      st0\<lparr>appointments :=
        [ap1,
         ap2\<lparr>a_status := COMPLETED, a_date := 1762165800000, a_followUpReason := None,
             a_notes := Some ''Monthly visit [Attended on 2025-11-03]''\<rparr>,
         ap3]\<rparr>) \<and>
   completeAppointment env0 (calExitBlank\<lparr>postVisitAction := None\<rparr>) st0 =
     (Some MissingFollowUpChoice, calExitBlank\<lparr>postVisitAction := None\<rparr>, st0)"
  by (simp add: completeAppointment_def completionFormValid_def handleCompletionSubmit_def
      today0 calExitBlank_def cal0_def st0_def ap1_def ap2_def ap3_def subA_def subS_def
      newDateT_def formatHHmm_def env0_def DAY_def updateAppointment_def getSubject_def
      trim_def isSpace_def orEmpty_def dateText_def ymd_20395 isBefore_def parseISO_def
      startOfDay_def subDays_def localDay_def)

section \<open>Bulk entry\<close>

text \<open>
  C9. A pasted line is valid exactly when its subject id is not empty and its appointment
  date parses; only valid rows reach the import, and a paste without a valid row imports
  nothing. Otherwise the import succeeds and appends exactly one new appointment per
  valid row, in order, after the existing appointments, which are kept as they were:
  the appointment of the k-th valid row has a fresh id, the row's subject id, date and
  remark, and is \<open>MISSED\<close> with follow-up reason "Past date on bulk entry" when the date
  is before now, \<open>SCHEDULED\<close> with no reason otherwise. In the witness, three lines
  whose second has an unparseable date commit exactly two appointments.
\<close>

theorem bulk_import_appointments:
  "(\<forall>cs. isValid (parseRow p cs) \<longleftrightarrow> col cs 0 \<noteq> [] \<and> p (col cs 4) \<noteq> None) \<and>
   (filter isValid (handleParse p cells) = [] \<longrightarrow>
      importBulk e p cells st = (Some NoValidRows, handleParse p cells, st)) \<and>
   (filter isValid (handleParse p cells) \<noteq> [] \<longrightarrow>
      fst (importBulk e p cells st) = None \<and>
      snd (snd (importBulk e p cells st)) =
        snd (handleBulkAdd e (map bulkItem.truncate (filter isValid (handleParse p cells))) st) \<and>
      length (appointments (snd (snd (importBulk e p cells st)))) =
        length (appointments st) + length (filter isValid (handleParse p cells)) \<and>
      take (length (appointments st)) (appointments (snd (snd (importBulk e p cells st)))) =
        appointments st \<and>
      (\<forall>k < length (filter isValid (handleParse p cells)).
         \<exists>d. b_appointmentDate (filter isValid (handleParse p cells) ! k) = Some d \<and>
             appointments (snd (snd (importBulk e p cells st))) ! (length (appointments st) + k) =
               \<lparr>a_id = uuid e k,
                a_subjectId = b_subjectId (filter isValid (handleParse p cells) ! k),
                a_date = d,
                a_status = (if d < now e then MISSED else SCHEDULED),
                a_followUpReason = (if d < now e then Some ''Past date on bulk entry'' else None),
                a_notes = Some (b_remark (filter isValid (handleParse p cells) ! k))\<rparr>))"
proof -
  define valid where "valid = filter isValid (handleParse p cells)"
  define items where "items = map bulkItem.truncate valid"
  have dated: "\<forall>r \<in> set valid. b_appointmentDate r \<noteq> None"
    by (auto simp: valid_def handleParse_def parseRow_valid)
  then have dated': "\<forall>it \<in> set items. b_appointmentDate it \<noteq> None"
    by (simp add: items_def truncate_sel)
  note ok = handleBulkAdd_apps [OF dated', of e st]
  obtain st1 where hb: "handleBulkAdd e items st = (None, st1)"
    using ok(1) by (cases "handleBulkAdd e items st") auto
  have commit: "valid \<noteq> [] \<Longrightarrow>
      importBulk e p cells st = (None, [], snd (handleBulkAdd e items st))"
    by (simp add: importBulk_def handleCommit_def Let_def valid_def [symmetric]
        items_def [symmetric] hb)
  have nth: "\<And>k. k < length valid \<Longrightarrow>
      map (\<lambda>(k, it). newApp e k it (the (b_appointmentDate it))) (enumerate 0 items) ! k =
        newApp e k (bulkItem.truncate (valid ! k)) (the (b_appointmentDate (valid ! k)))"
    by (simp add: items_def nth_enumerate_eq truncate_sel)
  have each: "\<forall>k < length valid.
         \<exists>d. b_appointmentDate (valid ! k) = Some d \<and>
             appointments (snd (handleBulkAdd e items st)) ! (length (appointments st) + k) =
               \<lparr>a_id = uuid e k,
                a_subjectId = b_subjectId (valid ! k),
                a_date = d,
                a_status = (if d < now e then MISSED else SCHEDULED),
                a_followUpReason = (if d < now e then Some ''Past date on bulk entry'' else None),
                a_notes = Some (b_remark (valid ! k))\<rparr>"
  proof (intro allI impI)
    fix k assume k: "k < length valid"
    then have "b_appointmentDate (valid ! k) \<noteq> None" using dated by simp
    then obtain d where d: "b_appointmentDate (valid ! k) = Some d" by auto
    show "\<exists>d. b_appointmentDate (valid ! k) = Some d \<and>
             appointments (snd (handleBulkAdd e items st)) ! (length (appointments st) + k) =
               \<lparr>a_id = uuid e k,
                a_subjectId = b_subjectId (valid ! k),
                a_date = d,
                a_status = (if d < now e then MISSED else SCHEDULED),
                a_followUpReason = (if d < now e then Some ''Past date on bulk entry'' else None),
                a_notes = Some (b_remark (valid ! k))\<rparr>"
      using k d nth [OF k]
      by (simp add: ok(2) nth_append newApp_def truncate_sel)
  qed
  have len: "length (appointments (snd (handleBulkAdd e items st))) =
      length (appointments st) + length valid"
    by (simp add: ok(2)) (simp add: items_def)
  have tk: "take (length (appointments st)) (appointments (snd (handleBulkAdd e items st))) =
      appointments st"
    by (simp add: ok(2))
  have empty: "valid = [] \<Longrightarrow> importBulk e p cells st = (Some NoValidRows, handleParse p cells, st)"
    by (simp add: importBulk_def handleCommit_def Let_def valid_def)
  show ?thesis
    unfolding valid_def [symmetric]
    using commit each len tk empty
    by (simp add: parseRow_valid items_def)
qed

theorem bulk_import_appointments_witness:
  "filter isValid (handleParse parse0 [cells0 ! 1]) = [] \<and>
   importBulk env0 parse0 [cells0 ! 1] st0 =
     (Some NoValidRows, handleParse parse0 [cells0 ! 1], st0) \<and>
   length (handleParse parse0 cells0) = 3 \<and>
   \<not> isValid (handleParse parse0 cells0 ! 1) \<and>
   length (filter isValid (handleParse parse0 cells0)) = 2 \<and>
   fst (importBulk env0 parse0 cells0 st0) = None \<and>
   length (appointments (snd (snd (importBulk env0 parse0 cells0 st0)))) =
     length (appointments st0) + 2 \<and>
   appointments (snd (snd (importBulk env0 parse0 cells0 st0))) ! (length (appointments st0) + 0) =
     \<lparr>a_id = ''uuid-0'', a_subjectId = ''A001'', a_date = 1762281000000, a_status = SCHEDULED,
      a_followUpReason = None, a_notes = Some ''Follow-up''\<rparr> \<and>
   appointments (snd (snd (importBulk env0 parse0 cells0 st0))) ! (length (appointments st0) + 1) =
     \<lparr>a_id = ''uuid-1'', a_subjectId = ''N009'', a_date = 1759257000000, a_status = MISSED,
      a_followUpReason = Some ''Past date on bulk entry'', a_notes = Some ''Baseline''\<rparr>"
proof -
  note t = bulk_import_appointments [of parse0 cells0 env0 st0, unfolded valid0]
  have r0: "parseRow parse0 (cells0 ! 0) =
      \<lparr>b_subjectId = ''A001'', b_name = ''Alice Freeman'', b_phone = ''9876543210'',
       b_insertionDate = None, b_appointmentDate = Some 1762281000000, b_remark = ''Follow-up'',
       isValid = True, error = []\<rparr>"
    by (simp add: cells0_def parseRow_def col_def trim_def isSpace_def parse0_def Let_def)
  have r2: "parseRow parse0 (cells0 ! 2) =
      \<lparr>b_subjectId = ''N009'', b_name = ''Nina Rao'', b_phone = ''7000000001'',
       b_insertionDate = Some 1759257000000, b_appointmentDate = Some 1759257000000,
       b_remark = ''Baseline'', isValid = True, error = []\<rparr>"
    by (simp add: cells0_def parseRow_def col_def trim_def isSpace_def parse0_def Let_def)
  have r1: "\<not> isValid (handleParse parse0 cells0 ! 1)"
    by (simp add: handleParse_def cells0_def parseRow_def col_def trim_def isSpace_def parse0_def
      Let_def)
  have l: "length (handleParse parse0 cells0) = 3"
    by (simp add: handleParse_def cells0_def)
  have ne: "[parseRow parse0 (cells0 ! 0), parseRow parse0 (cells0 ! 2)] \<noteq> []" by simp
  note body = t [THEN conjunct2, THEN conjunct2, THEN mp, OF ne]
  note q = body [THEN conjunct2, THEN conjunct2, THEN conjunct2, THEN conjunct2, rule_format]
  have t0: "appointments (snd (snd (importBulk env0 parse0 cells0 st0))) ! (length (appointments st0) + 0) =
     \<lparr>a_id = ''uuid-0'', a_subjectId = ''A001'', a_date = 1762281000000, a_status = SCHEDULED,
      a_followUpReason = None, a_notes = Some ''Follow-up''\<rparr>"
    using q [of 0] by (simp add: r0 uuid0 now0 natStr_digits)
  have t1: "appointments (snd (snd (importBulk env0 parse0 cells0 st0))) ! (length (appointments st0) + 1) =
     \<lparr>a_id = ''uuid-1'', a_subjectId = ''N009'', a_date = 1759257000000, a_status = MISSED,
      a_followUpReason = Some ''Past date on bulk entry'', a_notes = Some ''Baseline''\<rparr>"
    using q [of 1] by (simp add: r2 uuid0 now0 natStr_Suc_0)
  have t2: "fst (importBulk env0 parse0 cells0 st0) = None"
    using body [THEN conjunct1] .
  have t3: "length (appointments (snd (snd (importBulk env0 parse0 cells0 st0)))) =
     length (appointments st0) + 2"
    using body [THEN conjunct2, THEN conjunct2, THEN conjunct1] by simp
  have none: "filter isValid (handleParse parse0 [cells0 ! 1]) = []"
    by (simp add: handleParse_def cells0_def parseRow_def col_def trim_def isSpace_def parse0_def
        Let_def)
  have t4: "importBulk env0 parse0 [cells0 ! 1] st0 =
     (Some NoValidRows, handleParse parse0 [cells0 ! 1], st0)"
    using bulk_import_appointments [of parse0 "[cells0 ! 1]" env0 st0, THEN conjunct2,
      THEN conjunct1, THEN mp, OF none] .
  show ?thesis
    using t0 t1 t2 t3 t4 none r1 l
    by (simp add: valid0)
qed

text \<open>
  C3 does not hold as stated: of two rows with the same new subject id, one subject is
  created, and it carries the first row's name and phone; the second row's non-empty
  name and phone do not override them.
\<close>

theorem bulk_second_row_ignored_counterexample:
  "b_subjectId rowNina = b_subjectId rowNinaRao \<and>
   b_name rowNina \<noteq> [] \<and> b_name rowNinaRao \<noteq> [] \<and> b_name rowNinaRao \<noteq> b_name rowNina \<and>
   subjects (snd (handleBulkAdd env0 [rowNina, rowNinaRao] st0)) =
     [subA, subS,
      \<lparr>s_id = ''N009'', s_name = ''Nina'', s_email = None, s_phone = Some ''7000000001'',
       s_altPhone = None, s_insertionDate = Some 1762165800000,
       s_notes = Some ''Auto-created via Bulk Multi-Column Entry''\<rparr>]"
  by (simp add: handleBulkAdd_def rowNina_def rowNinaRao_def st0_def subA_def subS_def
      newSub_def updated_def newApp_def Let_def addChangeLog_def now0)

text \<open>
  C3, amended. In a batch whose rows all carry an appointment date, for a subject id
  that is not in the directory and occurs in the batch (in two rows, or any number),
  the import leaves exactly one subject with that id in the directory, built from the
  first row with that id: its name (or "Subject " and the id when the name is empty),
  its phone, and its insertion date (or now when empty). Later rows with the same id
  add no subject and change none of these fields.
\<close>

theorem bulk_new_subject_first_row:
  assumes "\<forall>it \<in> set items. b_appointmentDate it \<noteq> None"
    and "find (\<lambda>s. s_id s = k) (subjects st) = None"
    and "find (\<lambda>it. b_subjectId it = k) items = Some r"
  shows "filter (\<lambda>s. s_id s = k) (subjects (snd (handleBulkAdd e items st))) =
           [\<lparr>s_id = k,
             s_name = (if b_name r = [] then ''Subject '' @ k else b_name r),
             s_email = None,
             s_phone = Some (b_phone r),
             s_altPhone = None,
             s_insertionDate = Some (case b_insertionDate r of None \<Rightarrow> now e | Some t \<Rightarrow> t),
             s_notes = Some ''Auto-created via Bulk Multi-Column Entry''\<rparr>]"
proof -
  obtain newApps newSubs updatedSubs where
    run: "forEachItem e (subjects st) items ([], [], []) = Some (newApps, newSubs, updatedSubs)"
    using forEachItem_apps [OF assms(1), of e "subjects st" "[]" "[]" "[]"] by auto
  have rk: "b_subjectId r = k"
    using assms(3) by (auto dest: find_SomeD)
  have created: "filter (\<lambda>s. s_id s = k) newSubs = [newSub e r]"
    using forEachItem_newSubs [OF run assms(2)] assms(3) by simp
  then have ne: "newSubs \<noteq> []" by auto
  have upd: "\<forall>u \<in> set updatedSubs. s_id u \<noteq> k"
    using forEachItem_updatedSubs [OF run assms(2)] by simp
  have old: "filter (\<lambda>s. s_id s = k) (subjects st) = []"
    using assms(2) by (simp add: find_None_filter)
  have "subjects (snd (handleBulkAdd e items st)) =
          foldl (\<lambda>next u. replaceFirst u next) (subjects st @ newSubs) updatedSubs"
    using ne by (simp add: handleBulkAdd_def run Let_def addChangeLog_def)
  then have "filter (\<lambda>s. s_id s = k) (subjects (snd (handleBulkAdd e items st))) = [newSub e r]"
    using foldl_replaceFirst_filter [OF upd] created old by simp
  then show ?thesis
    by (simp add: newSub_def rk)
qed

theorem bulk_new_subject_first_row_witness:
  "b_appointmentDate rowNina \<noteq> None \<and> b_appointmentDate rowNinaRao \<noteq> None \<and>
   find (\<lambda>s. s_id s = ''N009'') (subjects st0) = None \<and>
   find (\<lambda>it. b_subjectId it = ''N009'') [rowNina, rowNinaRao] = Some rowNina \<and>
   filter (\<lambda>s. s_id s = ''N009'') (subjects (snd (handleBulkAdd env0 [rowNina, rowNinaRao] st0))) =
     [\<lparr>s_id = ''N009'', s_name = ''Nina'', s_email = None, s_phone = Some ''7000000001'',
       s_altPhone = None, s_insertionDate = Some 1762165800000,
       s_notes = Some ''Auto-created via Bulk Multi-Column Entry''\<rparr>]"
  using bulk_new_subject_first_row [of "[rowNina, rowNinaRao]" "''N009''" st0 rowNina env0]
  by (simp add: rowNina_def rowNinaRao_def st0_def subA_def subS_def now0)

end
